theory Spec2Isabelle
  imports Main "HOL-Library.Monad_Syntax"
begin

section \<open>Motion search interface of mpgwrite (search.h)\<close>

text \<open>
  The header \<^verbatim>\<open>search.h\<close> holds the search-algorithm constants, the two macros
  \<^verbatim>\<open>COMPUTE_MOTION_BOUNDARY\<close> and \<^verbatim>\<open>VALID_MOTION\<close>, and the prototypes of the
  selector and search procedures. The macros are embedded as functions, the
  prototypes as a table of declarations.
\<close>

subsection \<open>C \<^verbatim>\<open>int\<close> arithmetic\<close>

text \<open>
  All operands of the macros are C \<^verbatim>\<open>int\<close>s (32 bits). Signed overflow is undefined
  behaviour in C, so each arithmetic step yields \<open>None\<close> when its mathematical
  result leaves the \<^verbatim>\<open>int\<close> range, and the value otherwise.
\<close>

definition INT_MIN :: int where
  "INT_MIN = - (2 ^ 31)"

definition INT_MAX :: int where
  "INT_MAX = 2 ^ 31 - 1"

definition int_ok :: "int \<Rightarrow> bool" where
  "int_ok v \<longleftrightarrow> INT_MIN \<le> v \<and> v \<le> INT_MAX"

definition c_int :: "int \<Rightarrow> int option" where
  "c_int v = (if int_ok v then Some v else None)"

definition c_add :: "int \<Rightarrow> int \<Rightarrow> int option" where
  "c_add a b = c_int (a + b)"

definition c_sub :: "int \<Rightarrow> int \<Rightarrow> int option" where
  "c_sub a b = c_int (a - b)"

definition c_mul :: "int \<Rightarrow> int \<Rightarrow> int option" where
  "c_mul a b = c_int (a * b)"

subsection \<open>Constants\<close>

definition PSEARCH_SUBSAMPLE :: int where "PSEARCH_SUBSAMPLE = 0"
definition PSEARCH_EXHAUSTIVE :: int where "PSEARCH_EXHAUSTIVE = 1"
definition PSEARCH_LOGARITHMIC :: int where "PSEARCH_LOGARITHMIC = 2"
definition PSEARCH_TWOLEVEL :: int where "PSEARCH_TWOLEVEL = 3"

definition BSEARCH_EXHAUSTIVE :: int where "BSEARCH_EXHAUSTIVE = 0"
definition BSEARCH_CROSS2 :: int where "BSEARCH_CROSS2 = 1"
definition BSEARCH_SIMPLE :: int where "BSEARCH_SIMPLE = 2"

text \<open>
  Modelled from the spec: the constant \<^verbatim>\<open>DCTSIZE\<close> is used by
  \<^verbatim>\<open>COMPUTE_MOTION_BOUNDARY\<close> but defined in another header. The spec describes the
  matched block as 16 by 16, the DCT block size doubled, so \<^verbatim>\<open>DCTSIZE\<close> is 8.
\<close>

definition DCTSIZE :: int where
  "DCTSIZE = 8"

subsection \<open>The macros\<close>

text \<open>
  The four variables the macro assigns. \<^verbatim>\<open>VALID_MOTION\<close> reads them from the
  enclosing scope.
\<close>

record bounds =
  leftMY :: int
  leftMX :: int
  rightMY :: int
  rightMX :: int

text \<open>
  \<^verbatim>\<open>COMPUTE_MOTION_BOUNDARY(by,bx,stepSize,leftMY,leftMX,rightMY,rightMX)\<close>. The
  frame dimensions \<^verbatim>\<open>Fsize_y\<close> and \<^verbatim>\<open>Fsize_x\<close> are globals of the encoder and are
  passed in here. The block coordinates are written \<open>b_y\<close> and \<open>b_x\<close>. The steps
  follow C's parse: \<^verbatim>\<open>-2*DCTSIZE*by\<close> is \<^verbatim>\<open>((-2)*DCTSIZE)*by\<close> and
  \<^verbatim>\<open>2*(Fsize_y - (by+2)*DCTSIZE + 1) - 1\<close> is evaluated inside out, left to right.
\<close>

definition right_bound :: "int \<Rightarrow> int \<Rightarrow> int option" where
  "right_bound Fsize b = do {
     t1 \<leftarrow> c_add b 2;
     t2 \<leftarrow> c_mul t1 DCTSIZE;
     t3 \<leftarrow> c_sub Fsize t2;
     t4 \<leftarrow> c_add t3 1;
     t5 \<leftarrow> c_mul 2 t4;
     c_sub t5 1
   }"

definition left_bound :: "int \<Rightarrow> int option" where
  "left_bound b = do {
     t1 \<leftarrow> c_mul (- 2) DCTSIZE;
     c_mul t1 b
   }"

definition COMPUTE_MOTION_BOUNDARY ::
  "int \<Rightarrow> int \<Rightarrow> int \<Rightarrow> int \<Rightarrow> int \<Rightarrow> bounds option" where
  "COMPUTE_MOTION_BOUNDARY Fsize_y Fsize_x b_y b_x stepSize = do {
     lmy \<leftarrow> left_bound b_y;
     lmx \<leftarrow> left_bound b_x;
     rmy \<leftarrow> right_bound Fsize_y b_y;
     rmx \<leftarrow> right_bound Fsize_x b_x;
     if stepSize = 2 then do {
       rmy' \<leftarrow> c_add rmy 1;
       rmx' \<leftarrow> c_add rmx 1;
       Some \<lparr>leftMY = lmy, leftMX = lmx, rightMY = rmy', rightMX = rmx'\<rparr>
     } else
       Some \<lparr>leftMY = lmy, leftMX = lmx, rightMY = rmy, rightMX = rmx\<rparr>
   }"

text \<open>\<^verbatim>\<open>VALID_MOTION(y,x)\<close>, with the bounds in scope made an argument.\<close>

definition VALID_MOTION :: "bounds \<Rightarrow> int \<Rightarrow> int \<Rightarrow> bool" where
  "VALID_MOTION b y x \<longleftrightarrow>
     y \<ge> leftMY b \<and> y < rightMY b \<and> x \<ge> leftMX b \<and> x < rightMX b"

subsection \<open>The reference patch of a motion vector\<close>

text \<open>
  Modelled from the spec: the code that reads the reference frame at a motion
  vector is not part of \<^verbatim>\<open>search.h\<close>. Block \<open>(b_y, b_x)\<close> is the square of
  \<open>2 * DCTSIZE\<close> samples whose first sample is in row \<open>b_y * DCTSIZE\<close> and column
  \<open>b_x * DCTSIZE\<close>. A motion vector counts half samples, so component \<open>v\<close> moves
  the block by \<open>v div 2\<close> whole samples (rounded towards minus infinity), and an
  odd component needs one more row or column for the half-sample interpolation.
  \<open>patch_range b v\<close> lists the rows (or columns) read along one axis.
\<close>

definition patch_range :: "int \<Rightarrow> int \<Rightarrow> int list" where
  "patch_range b v =
     [b * DCTSIZE + v div 2 ..
      b * DCTSIZE + v div 2 + 2 * DCTSIZE - 1 + (if odd v then 1 else 0)]"

text \<open>
  Modelled from the spec: the samples of the reference frame that the block at
  \<open>(b_y, b_x)\<close> reads under the motion vector \<open>(y, x)\<close>, as (row, column) pairs.
\<close>

definition patch_samples :: "int \<Rightarrow> int \<Rightarrow> int \<Rightarrow> int \<Rightarrow> (int \<times> int) list" where
  "patch_samples b_y b_x y x = List.product (patch_range b_y y) (patch_range b_x x)"

text \<open>
  Modelled from the spec: a sample lies inside a frame of \<open>Fsize_y\<close> rows and
  \<open>Fsize_x\<close> columns.
\<close>

definition in_frame :: "int \<Rightarrow> int \<Rightarrow> int \<times> int \<Rightarrow> bool" where
  "in_frame Fsize_y Fsize_x p \<longleftrightarrow>
     0 \<le> fst p \<and> fst p < Fsize_y \<and> 0 \<le> snd p \<and> snd p < Fsize_x"

subsection \<open>The comparison of two sets of bounds\<close>

text \<open>
  The right bounds of \<open>b\<close> are one unit tighter than those of \<open>c\<close>, and one unit
  looser.
\<close>

definition right_tighter_by_one :: "bounds \<Rightarrow> bounds \<Rightarrow> bool" where
  "right_tighter_by_one b c \<longleftrightarrow> rightMY b = rightMY c - 1 \<and> rightMX b = rightMX c - 1"

definition right_looser_by_one :: "bounds \<Rightarrow> bounds \<Rightarrow> bool" where
  "right_looser_by_one b c \<longleftrightarrow> rightMY b = rightMY c + 1 \<and> rightMX b = rightMX c + 1"

subsection \<open>The prototypes\<close>

text \<open>
  The external procedure prototypes, as declarations: return type, name, and the
  parameters in order, as \<^verbatim>\<open>_ANSI_ARGS_\<close> gives them to an ANSI compiler. The types
  \<^verbatim>\<open>int32\<close>, \<^verbatim>\<open>LumBlock\<close> and \<^verbatim>\<open>MpegFrame\<close> are declared in other headers and are
  kept by name.
\<close>

datatype ctype = T_void | T_char | T_int | T_int32 | T_LumBlock | T_MpegFrame
  | T_ptr ctype

record prototype =
  proto_ret :: ctype
  proto_name :: string
  proto_params :: "(ctype \<times> string) list"

definition SetPSearchAlg_decl :: prototype where
  "SetPSearchAlg_decl =
     \<lparr>proto_ret = T_void, proto_name = ''SetPSearchAlg'',
      proto_params = [(T_ptr T_char, ''alg'')]\<rparr>"

definition SetBSearchAlg_decl :: prototype where
  "SetBSearchAlg_decl =
     \<lparr>proto_ret = T_void, proto_name = ''SetBSearchAlg'',
      proto_params = [(T_ptr T_char, ''alg'')]\<rparr>"

definition BSearchName_decl :: prototype where
  "BSearchName_decl =
     \<lparr>proto_ret = T_ptr T_char, proto_name = ''BSearchName'', proto_params = []\<rparr>"

definition PSearchName_decl :: prototype where
  "PSearchName_decl =
     \<lparr>proto_ret = T_ptr T_char, proto_name = ''PSearchName'', proto_params = []\<rparr>"

definition PLogarithmicSearch_decl :: prototype where
  "PLogarithmicSearch_decl =
     \<lparr>proto_ret = T_int32, proto_name = ''PLogarithmicSearch'',
      proto_params = [(T_LumBlock, ''currentBlock''), (T_ptr T_MpegFrame, ''prev''),
        (T_int, ''by''), (T_int, ''bx''),
        (T_ptr T_int, ''motionY''), (T_ptr T_int, ''motionX'')]\<rparr>"

definition PSubSampleSearch_decl :: prototype where
  "PSubSampleSearch_decl =
     \<lparr>proto_ret = T_int32, proto_name = ''PSubSampleSearch'',
      proto_params = [(T_LumBlock, ''currentBlock''), (T_ptr T_MpegFrame, ''prev''),
        (T_int, ''by''), (T_int, ''bx''),
        (T_ptr T_int, ''motionY''), (T_ptr T_int, ''motionX'')]\<rparr>"

definition PLocalSearch_decl :: prototype where
  "PLocalSearch_decl =
     \<lparr>proto_ret = T_int32, proto_name = ''PLocalSearch'',
      proto_params = [(T_LumBlock, ''currentBlock''), (T_ptr T_MpegFrame, ''prev''),
        (T_int, ''by''), (T_int, ''bx''),
        (T_ptr T_int, ''motionY''), (T_ptr T_int, ''motionX''),
        (T_int32, ''bestSoFar'')]\<rparr>"

definition PTwoLevelSearch_decl :: prototype where
  "PTwoLevelSearch_decl =
     \<lparr>proto_ret = T_int32, proto_name = ''PTwoLevelSearch'',
      proto_params = [(T_LumBlock, ''currentBlock''), (T_ptr T_MpegFrame, ''prev''),
        (T_int, ''by''), (T_int, ''bx''),
        (T_ptr T_int, ''motionY''), (T_ptr T_int, ''motionX''),
        (T_int32, ''bestSoFar'')]\<rparr>"

text \<open>The four P-frame search procedures, in the order of the header.\<close>

definition p_search_decls :: "prototype list" where
  "p_search_decls =
     [PLogarithmicSearch_decl, PSubSampleSearch_decl, PLocalSearch_decl,
      PTwoLevelSearch_decl]"

text \<open>The type a prototype gives to the parameter of a name, if it has one.\<close>

definition param_type :: "prototype \<Rightarrow> string \<Rightarrow> ctype option" where
  "param_type p n = map_option fst (find (\<lambda>e. snd e = n) (proto_params p))"

subsection \<open>The algorithm selector\<close>

text \<open>
  The bodies of \<^verbatim>\<open>SetPSearchAlg\<close>, \<^verbatim>\<open>SetBSearchAlg\<close>, \<^verbatim>\<open>PSearchName\<close> and
  \<^verbatim>\<open>BSearchName\<close> are not part of \<^verbatim>\<open>search.h\<close>, which has their prototypes, the
  mode constants and the global \<^verbatim>\<open>psearchAlg\<close> only. By the spec a setter maps a
  recognized name to the mode and reports an error on any other name, and a name
  query returns the name of the active mode.
\<close>

text \<open>
  Modelled from the spec: the process-wide selection, the global \<^verbatim>\<open>psearchAlg\<close> of
  the header and its B-frame counterpart.
\<close>

record selector =
  psearchAlg :: int
  bsearchAlg :: int

text \<open>
  Modelled from the spec: the explicit error of a setter on an unrecognized name.
  The setters return nothing in C, so the error is the other outcome of the call.
\<close>

datatype config_error = UnrecognizedPSearch string | UnrecognizedBSearch string

text \<open>
  Modelled from the spec: the recognized P-search names and their modes. The spec
  gives the name \<^verbatim>\<open>logarithmic\<close>; the other names are those of the constants, in
  lower case.
\<close>

definition psearch_names :: "(string \<times> int) list" where
  "psearch_names =
     [(''subsample'', PSEARCH_SUBSAMPLE), (''exhaustive'', PSEARCH_EXHAUSTIVE),
      (''logarithmic'', PSEARCH_LOGARITHMIC), (''twolevel'', PSEARCH_TWOLEVEL)]"

text \<open>
  Modelled from the spec: the recognized B-search names and their modes, named
  after the constants, in lower case.
\<close>

definition bsearch_names :: "(string \<times> int) list" where
  "bsearch_names =
     [(''exhaustive'', BSEARCH_EXHAUSTIVE), (''cross2'', BSEARCH_CROSS2),
      (''simple'', BSEARCH_SIMPLE)]"

text \<open>
  Modelled from the spec: \<^verbatim>\<open>SetPSearchAlg(alg)\<close> sets the mode of a recognized name
  and fails on any other name.
\<close>

definition SetPSearchAlg :: "string \<Rightarrow> selector \<Rightarrow> config_error + selector" where
  "SetPSearchAlg alg s =
     (case map_of psearch_names alg of
        Some m \<Rightarrow> Inr (s\<lparr>psearchAlg := m\<rparr>)
      | None \<Rightarrow> Inl (UnrecognizedPSearch alg))"

text \<open>
  Modelled from the spec: \<^verbatim>\<open>SetBSearchAlg(alg)\<close> sets the mode of a recognized name
  and fails on any other name.
\<close>

definition SetBSearchAlg :: "string \<Rightarrow> selector \<Rightarrow> config_error + selector" where
  "SetBSearchAlg alg s =
     (case map_of bsearch_names alg of
        Some m \<Rightarrow> Inr (s\<lparr>bsearchAlg := m\<rparr>)
      | None \<Rightarrow> Inl (UnrecognizedBSearch alg))"

text \<open>
  Modelled from the spec: the name of a mode, the first name of the table that
  maps to it.
\<close>

definition mode_name :: "(string \<times> int) list \<Rightarrow> int \<Rightarrow> string option" where
  "mode_name names m = map_option fst (find (\<lambda>e. snd e = m) names)"

text \<open>
  Modelled from the spec: \<^verbatim>\<open>PSearchName()\<close> returns the name of the active
  P-search mode.
\<close>

definition PSearchName :: "selector \<Rightarrow> string option" where
  "PSearchName s = mode_name psearch_names (psearchAlg s)"

text \<open>
  Modelled from the spec: \<^verbatim>\<open>BSearchName()\<close> returns the name of the active
  B-search mode.
\<close>

definition BSearchName :: "selector \<Rightarrow> string option" where
  "BSearchName s = mode_name bsearch_names (bsearchAlg s)"

section \<open>Properties of the macros\<close>

subsection \<open>What the boundary computation yields\<close>

lemmas cmb_eval = COMPUTE_MOTION_BOUNDARY_def left_bound_def right_bound_def c_add_def
  c_sub_def c_mul_def c_int_def int_ok_def INT_MIN_def INT_MAX_def DCTSIZE_def

lemma c_int_Some: "c_int v = Some w \<longleftrightarrow> w = v \<and> int_ok v"
  by (auto simp: c_int_def)

lemma left_bound_Some:
  "left_bound b = Some l \<longleftrightarrow> l = - 16 * b \<and> int_ok (- 16 * b)"
  by (auto simp: left_bound_def c_mul_def c_int_def DCTSIZE_def int_ok_def
      INT_MIN_def INT_MAX_def bind_eq_Some_conv)

lemma right_bound_Some:
  "right_bound Fsize b = Some r \<longleftrightarrow>
     r = 2 * (Fsize - (b + 2) * 8 + 1) - 1 \<and>
     int_ok (b + 2) \<and> int_ok ((b + 2) * 8) \<and> int_ok (Fsize - (b + 2) * 8) \<and>
     int_ok (Fsize - (b + 2) * 8 + 1) \<and> int_ok (2 * (Fsize - (b + 2) * 8 + 1)) \<and>
     int_ok (2 * (Fsize - (b + 2) * 8 + 1) - 1)"
  by (auto simp: right_bound_def c_add_def c_sub_def c_mul_def c_int_Some DCTSIZE_def
      bind_eq_Some_conv)

lemma COMPUTE_MOTION_BOUNDARY_Some:
  assumes "COMPUTE_MOTION_BOUNDARY Fsize_y Fsize_x b_y b_x stepSize = Some b"
  shows "leftMY b = - 16 * b_y"
    and "leftMX b = - 16 * b_x"
    and "rightMY b = 2 * (Fsize_y - (b_y + 2) * 8 + 1) - 1 + (if stepSize = 2 then 1 else 0)"
    and "rightMX b = 2 * (Fsize_x - (b_x + 2) * 8 + 1) - 1 + (if stepSize = 2 then 1 else 0)"
  using assms
  by (auto simp: COMPUTE_MOTION_BOUNDARY_def left_bound_Some right_bound_Some c_add_def
      c_int_Some bind_eq_Some_conv split: if_splits)

text \<open>
  No step of the macro overflows for a block inside a frame of at most \<open>2 ^ 30\<close>
  rows and columns, whatever the step size: the bounds are then computed.
\<close>

lemma COMPUTE_MOTION_BOUNDARY_defined:
  assumes "0 \<le> b_y" and "0 \<le> b_x"
    and "(b_y + 2) * DCTSIZE \<le> Fsize_y" and "(b_x + 2) * DCTSIZE \<le> Fsize_x"
    and "Fsize_y \<le> 2 ^ 30" and "Fsize_x \<le> 2 ^ 30"
  shows "\<exists>b. COMPUTE_MOTION_BOUNDARY Fsize_y Fsize_x b_y b_x stepSize = Some b"
  using assms by (simp add: cmb_eval)

text \<open>
  The two step sizes on the same block and frame: the same left bounds, and
  right bounds larger by one at step size 2.
\<close>

lemma step_bounds_relation:
  assumes "COMPUTE_MOTION_BOUNDARY Fsize_y Fsize_x b_y b_x 1 = Some b1"
    and "COMPUTE_MOTION_BOUNDARY Fsize_y Fsize_x b_y b_x 2 = Some b2"
  shows "leftMY b2 = leftMY b1" and "leftMX b2 = leftMX b1"
    and "rightMY b2 = rightMY b1 + 1" and "rightMX b2 = rightMX b1 + 1"
  using COMPUTE_MOTION_BOUNDARY_Some [OF assms(1)] COMPUTE_MOTION_BOUNDARY_Some [OF assms(2)]
  by simp_all

subsection \<open>Valid vectors stay inside the reference frame\<close>

text \<open>
  Along one axis: a component between the bounds reads rows (or columns) of the
  frame only. \<open>full\<close> says that the step size is 2, where the component is even.
\<close>

lemma patch_range_in_frame:
  assumes lo: "- 16 * b \<le> v"
    and hi: "v < 2 * (Fsize - (b + 2) * 8 + 1) - 1 + (if full then 1 else 0)"
    and full: "full \<longrightarrow> even v"
    and r: "r \<in> set (patch_range b v)"
  shows "0 \<le> r \<and> r < Fsize"
proof (cases "even v")
  case True
  then obtain k where k: "v = 2 * k" by (elim evenE)
  from r True k have "b * 8 + k \<le> r" "r \<le> b * 8 + k + 15"
    by (auto simp: patch_range_def DCTSIZE_def)
  moreover from lo k have "- 8 * b \<le> k" by simp
  moreover from hi k have "k \<le> Fsize - (b + 2) * 8"
    by (cases full) auto
  ultimately show ?thesis by simp
next
  case False
  then obtain k where k: "v = 2 * k + 1" by (elim oddE)
  from r False k have "b * 8 + k \<le> r" "r \<le> b * 8 + k + 16"
    by (auto simp: patch_range_def DCTSIZE_def)
  moreover from lo k have "- 8 * b \<le> k" by simp
  moreover from hi k False full have "k < Fsize - (b + 2) * 8"
    by (cases full) auto
  ultimately show ?thesis by simp
qed

text \<open>
  Claim C1. Let the block position be \<open>b_y \<ge> 0\<close>, \<open>b_x \<ge> 0\<close>, the step size 1 or
  2, and the frame large enough to hold the block of \<open>2 * DCTSIZE\<close> rows and
  columns. Then every half-pel motion vector \<open>(y, x)\<close> that \<^verbatim>\<open>VALID_MOTION\<close> accepts
  under the bounds of \<^verbatim>\<open>COMPUTE_MOTION_BOUNDARY\<close> moves the block to a patch whose
  samples all lie inside the reference frame, the extra row or column of an odd
  component included. At step size 2 the candidates are the vectors with even
  components.
\<close>

theorem valid_vectors_stay_in_frame:
  assumes "0 \<le> b_y" and "0 \<le> b_x"
    and "stepSize = 1 \<or> stepSize = 2"
    and "(b_y + 2) * DCTSIZE \<le> Fsize_y" and "(b_x + 2) * DCTSIZE \<le> Fsize_x"
    and cmb: "COMPUTE_MOTION_BOUNDARY Fsize_y Fsize_x b_y b_x stepSize = Some b"
    and valid: "VALID_MOTION b y x"
    and full: "stepSize = 2 \<longrightarrow> even y \<and> even x"
  shows "list_all (in_frame Fsize_y Fsize_x) (patch_samples b_y b_x y x)"
proof -
  note bs = COMPUTE_MOTION_BOUNDARY_Some [OF cmb]
  have rows: "0 \<le> r \<and> r < Fsize_y" if "r \<in> set (patch_range b_y y)" for r
  proof (rule patch_range_in_frame [where full = "stepSize = 2", OF _ _ _ that])
    show "- 16 * b_y \<le> y" using valid bs(1) by (simp add: VALID_MOTION_def)
    show "y < 2 * (Fsize_y - (b_y + 2) * 8 + 1) - 1 + (if stepSize = 2 then 1 else 0)"
      using valid bs(3) by (simp add: VALID_MOTION_def)
    show "stepSize = 2 \<longrightarrow> even y" using full by simp
  qed
  have cols: "0 \<le> c \<and> c < Fsize_x" if "c \<in> set (patch_range b_x x)" for c
  proof (rule patch_range_in_frame [where full = "stepSize = 2", OF _ _ _ that])
    show "- 16 * b_x \<le> x" using valid bs(2) by (simp add: VALID_MOTION_def)
    show "x < 2 * (Fsize_x - (b_x + 2) * 8 + 1) - 1 + (if stepSize = 2 then 1 else 0)"
      using valid bs(4) by (simp add: VALID_MOTION_def)
    show "stepSize = 2 \<longrightarrow> even x" using full by simp
  qed
  show ?thesis
    unfolding list_all_iff patch_samples_def in_frame_def
    using rows cols by auto
qed

text \<open>
  At a 240 by 320 frame, block \<open>(1, 2)\<close> and step size 1, the vector
  \<open>(432, - 31)\<close> is the last valid row displacement with an odd column
  displacement, and its patch is inside the frame.
\<close>

theorem valid_vectors_stay_in_frame_witness:
  "COMPUTE_MOTION_BOUNDARY 240 320 1 2 1 =
     Some \<lparr>leftMY = - 16, leftMX = - 32, rightMY = 433, rightMX = 577\<rparr> \<and>
   VALID_MOTION \<lparr>leftMY = - 16, leftMX = - 32, rightMY = 433, rightMX = 577\<rparr> 432 (- 31) \<and>
   list_all (in_frame 240 320) (patch_samples 1 2 432 (- 31))"
proof -
  have c: "COMPUTE_MOTION_BOUNDARY 240 320 1 2 1 =
     Some \<lparr>leftMY = - 16, leftMX = - 32, rightMY = 433, rightMX = 577\<rparr>"
    by (simp add: cmb_eval)
  have v: "VALID_MOTION \<lparr>leftMY = - 16, leftMX = - 32, rightMY = 433, rightMX = 577\<rparr> 432 (- 31)"
    by (simp add: VALID_MOTION_def)
  have "list_all (in_frame 240 320) (patch_samples 1 2 432 (- 31))"
    using valid_vectors_stay_in_frame [OF _ _ _ _ _ c v] by (simp add: DCTSIZE_def)
  with c v show ?thesis by simp
qed

text \<open>
  The restriction to even components at step size 2 is needed: on a 16 by 16
  frame the bounds of block \<open>(0, 0)\<close> at step size 2 accept the vector \<open>(1, 0)\<close>,
  whose patch reads row 16.
\<close>

lemma odd_vector_at_full_pel_step:
  "COMPUTE_MOTION_BOUNDARY 16 16 0 0 2 =
     Some \<lparr>leftMY = 0, leftMX = 0, rightMY = 2, rightMX = 2\<rparr> \<and>
   VALID_MOTION \<lparr>leftMY = 0, leftMX = 0, rightMY = 2, rightMX = 2\<rparr> 1 0 \<and>
   (16, 0) \<in> set (patch_samples 0 0 1 0) \<and> \<not> in_frame 16 16 (16, 0)"
  by (simp add: cmb_eval VALID_MOTION_def patch_samples_def patch_range_def in_frame_def)

subsection \<open>The right bounds and the step size\<close>

text \<open>
  Claim C2 says that the right bounds are one unit tighter at step size 2 than
  at step size 1. The macro increments \<^verbatim>\<open>rightMY\<close> and \<^verbatim>\<open>rightMX\<close> when
  \<^verbatim>\<open>stepSize == 2\<close>, so, as amended: for every block position and frame size for
  which the macro computes the bounds at both step sizes, \<open>rightMY\<close> and \<open>rightMX\<close>
  at step size 2 are one unit larger (looser) than at step size 1.
\<close>

theorem right_bounds_looser_at_full_pel_step:
  assumes "COMPUTE_MOTION_BOUNDARY Fsize_y Fsize_x b_y b_x 1 = Some b1"
    and "COMPUTE_MOTION_BOUNDARY Fsize_y Fsize_x b_y b_x 2 = Some b2"
  shows "right_looser_by_one b2 b1"
  using step_bounds_relation(3,4) [OF assms] by (simp add: right_looser_by_one_def)

theorem right_bounds_looser_at_full_pel_step_witness:
  "COMPUTE_MOTION_BOUNDARY 240 320 0 0 1 =
     Some \<lparr>leftMY = 0, leftMX = 0, rightMY = 449, rightMX = 609\<rparr> \<and>
   COMPUTE_MOTION_BOUNDARY 240 320 0 0 2 =
     Some \<lparr>leftMY = 0, leftMX = 0, rightMY = 450, rightMX = 610\<rparr> \<and>
   right_looser_by_one \<lparr>leftMY = 0, leftMX = 0, rightMY = 450, rightMX = 610\<rparr>
     \<lparr>leftMY = 0, leftMX = 0, rightMY = 449, rightMX = 609\<rparr>"
proof -
  have c1: "COMPUTE_MOTION_BOUNDARY 240 320 0 0 1 =
     Some \<lparr>leftMY = 0, leftMX = 0, rightMY = 449, rightMX = 609\<rparr>"
    by (simp add: cmb_eval)
  have c2: "COMPUTE_MOTION_BOUNDARY 240 320 0 0 2 =
     Some \<lparr>leftMY = 0, leftMX = 0, rightMY = 450, rightMX = 610\<rparr>"
    by (simp add: cmb_eval)
  from c1 c2 right_bounds_looser_at_full_pel_step [OF c1 c2] show ?thesis by simp
qed

text \<open>
  The claim as stated fails on a 240 by 320 frame at block \<open>(0, 0)\<close>: the right
  bounds are 449 and 609 at step size 1, and 450 and 610 at step size 2.
\<close>

theorem right_bounds_tighter_counterexample:
  "COMPUTE_MOTION_BOUNDARY 240 320 0 0 1 =
     Some \<lparr>leftMY = 0, leftMX = 0, rightMY = 449, rightMX = 609\<rparr> \<and>
   COMPUTE_MOTION_BOUNDARY 240 320 0 0 2 =
     Some \<lparr>leftMY = 0, leftMX = 0, rightMY = 450, rightMX = 610\<rparr> \<and>
   \<not> right_tighter_by_one \<lparr>leftMY = 0, leftMX = 0, rightMY = 450, rightMX = 610\<rparr>
     \<lparr>leftMY = 0, leftMX = 0, rightMY = 449, rightMX = 609\<rparr>"
  by (simp add: cmb_eval right_tighter_by_one_def)

subsection \<open>The validity predicate\<close>

text \<open>
  Claim C3. For every candidate vector \<open>(y, x)\<close> and all bounds,
  \<^verbatim>\<open>VALID_MOTION(y, x)\<close> holds if and only if \<open>leftMY \<le> y < rightMY\<close> and
  \<open>leftMX \<le> x < rightMX\<close>: each component is in the half-open range from its left
  bound to its right bound.
\<close>

theorem valid_motion_iff_in_ranges:
  "VALID_MOTION b y x \<longleftrightarrow>
     y \<in> {leftMY b ..< rightMY b} \<and> x \<in> {leftMX b ..< rightMX b}"
  by (auto simp: VALID_MOTION_def)

subsection \<open>The left bounds\<close>

text \<open>
  Claim C4. The left bounds that \<^verbatim>\<open>COMPUTE_MOTION_BOUNDARY\<close> computes depend on the
  block position only: \<open>leftMY = - 2 * DCTSIZE * b_y\<close> and
  \<open>leftMX = - 2 * DCTSIZE * b_x\<close>, and another step size or other frame dimensions
  give the same left bounds.
\<close>

theorem left_bounds_from_position_only:
  assumes "COMPUTE_MOTION_BOUNDARY Fsize_y Fsize_x b_y b_x stepSize = Some b"
    and "COMPUTE_MOTION_BOUNDARY Fsize_y' Fsize_x' b_y b_x stepSize' = Some b'"
  shows "leftMY b = - 2 * DCTSIZE * b_y \<and> leftMX b = - 2 * DCTSIZE * b_x \<and>
         leftMY b' = leftMY b \<and> leftMX b' = leftMX b"
  using COMPUTE_MOTION_BOUNDARY_Some(1,2) [OF assms(1)]
    COMPUTE_MOTION_BOUNDARY_Some(1,2) [OF assms(2)]
  by (simp add: DCTSIZE_def)

theorem left_bounds_from_position_only_witness:
  "COMPUTE_MOTION_BOUNDARY 240 320 1 2 1 =
     Some \<lparr>leftMY = - 16, leftMX = - 32, rightMY = 433, rightMX = 577\<rparr> \<and>
   COMPUTE_MOTION_BOUNDARY 480 640 1 2 2 =
     Some \<lparr>leftMY = - 16, leftMX = - 32, rightMY = 914, rightMX = 1218\<rparr> \<and>
   - 2 * DCTSIZE * 1 = - 16 \<and> - 2 * DCTSIZE * 2 = - 32"
proof -
  have c1: "COMPUTE_MOTION_BOUNDARY 240 320 1 2 1 =
     Some \<lparr>leftMY = - 16, leftMX = - 32, rightMY = 433, rightMX = 577\<rparr>"
    by (simp add: cmb_eval)
  have c2: "COMPUTE_MOTION_BOUNDARY 480 640 1 2 2 =
     Some \<lparr>leftMY = - 16, leftMX = - 32, rightMY = 914, rightMX = 1218\<rparr>"
    by (simp add: cmb_eval)
  from c1 c2 left_bounds_from_position_only [OF c1 c2] show ?thesis by simp
qed

subsection \<open>The half-pel range inside the full-pel range\<close>

text \<open>
  Claim C9. For every block position and frame size, the vectors valid under
  the bounds of step size 1 are valid under the bounds of step size 2: the left
  bounds are the same, \<open>rightMY\<close> and \<open>rightMX\<close> are each exactly one larger at
  step size 2, so \<^verbatim>\<open>VALID_MOTION\<close> under the former implies \<^verbatim>\<open>VALID_MOTION\<close> under
  the latter.
\<close>

theorem half_pel_range_within_full_pel_range:
  assumes "COMPUTE_MOTION_BOUNDARY Fsize_y Fsize_x b_y b_x 1 = Some b1"
    and "COMPUTE_MOTION_BOUNDARY Fsize_y Fsize_x b_y b_x 2 = Some b2"
  shows "leftMY b2 = leftMY b1 \<and> leftMX b2 = leftMX b1 \<and>
         rightMY b2 = rightMY b1 + 1 \<and> rightMX b2 = rightMX b1 + 1 \<and>
         (VALID_MOTION b1 y x \<longrightarrow> VALID_MOTION b2 y x)"
  using step_bounds_relation [OF assms] by (simp add: VALID_MOTION_def)

theorem half_pel_range_within_full_pel_range_witness:
  "COMPUTE_MOTION_BOUNDARY 240 320 1 2 1 =
     Some \<lparr>leftMY = - 16, leftMX = - 32, rightMY = 433, rightMX = 577\<rparr> \<and>
   COMPUTE_MOTION_BOUNDARY 240 320 1 2 2 =
     Some \<lparr>leftMY = - 16, leftMX = - 32, rightMY = 434, rightMX = 578\<rparr> \<and>
   VALID_MOTION \<lparr>leftMY = - 16, leftMX = - 32, rightMY = 433, rightMX = 577\<rparr> 5 (- 7) \<and>
   VALID_MOTION \<lparr>leftMY = - 16, leftMX = - 32, rightMY = 434, rightMX = 578\<rparr> 5 (- 7)"
proof -
  have c1: "COMPUTE_MOTION_BOUNDARY 240 320 1 2 1 =
     Some \<lparr>leftMY = - 16, leftMX = - 32, rightMY = 433, rightMX = 577\<rparr>"
    by (simp add: cmb_eval)
  have c2: "COMPUTE_MOTION_BOUNDARY 240 320 1 2 2 =
     Some \<lparr>leftMY = - 16, leftMX = - 32, rightMY = 434, rightMX = 578\<rparr>"
    by (simp add: cmb_eval)
  have v: "VALID_MOTION \<lparr>leftMY = - 16, leftMX = - 32, rightMY = 433, rightMX = 577\<rparr> 5 (- 7)"
    by (simp add: VALID_MOTION_def)
  from half_pel_range_within_full_pel_range [OF c1 c2, of 5 "- 7"] v
  have "VALID_MOTION \<lparr>leftMY = - 16, leftMX = - 32, rightMY = 434, rightMX = 578\<rparr> 5 (- 7)"
    by blast
  with c1 c2 v show ?thesis by simp
qed

subsection \<open>The zero vector\<close>

text \<open>
  Claim C10. For every block position with \<open>b_y \<ge> 0\<close> and \<open>b_x \<ge> 0\<close> whose block
  fits the frame (\<open>Fsize_y \<ge> (b_y + 2) * DCTSIZE\<close> and
  \<open>Fsize_x \<ge> (b_x + 2) * DCTSIZE\<close>), and for step sizes 1 and 2, the zero vector
  satisfies \<^verbatim>\<open>VALID_MOTION\<close> under the bounds of \<^verbatim>\<open>COMPUTE_MOTION_BOUNDARY\<close>, so the
  search range is not empty.
\<close>

theorem zero_vector_valid:
  assumes "0 \<le> b_y" and "0 \<le> b_x"
    and "Fsize_y \<ge> (b_y + 2) * DCTSIZE" and "Fsize_x \<ge> (b_x + 2) * DCTSIZE"
    and "stepSize = 1 \<or> stepSize = 2"
    and cmb: "COMPUTE_MOTION_BOUNDARY Fsize_y Fsize_x b_y b_x stepSize = Some b"
  shows "VALID_MOTION b 0 0"
  using assms(1-5) COMPUTE_MOTION_BOUNDARY_Some [OF cmb]
  by (auto simp: VALID_MOTION_def DCTSIZE_def)

text \<open>
  The smallest frame that holds block \<open>(0, 0)\<close>: the zero vector is the only
  valid vector at step size 1.
\<close>

theorem zero_vector_valid_witness:
  "COMPUTE_MOTION_BOUNDARY 16 16 0 0 1 =
     Some \<lparr>leftMY = 0, leftMX = 0, rightMY = 1, rightMX = 1\<rparr> \<and>
   VALID_MOTION \<lparr>leftMY = 0, leftMX = 0, rightMY = 1, rightMX = 1\<rparr> 0 0"
proof -
  have c: "COMPUTE_MOTION_BOUNDARY 16 16 0 0 1 =
     Some \<lparr>leftMY = 0, leftMX = 0, rightMY = 1, rightMX = 1\<rparr>"
    by (simp add: cmb_eval)
  from c zero_vector_valid [OF _ _ _ _ _ c] show ?thesis by (simp add: DCTSIZE_def)
qed

section \<open>Properties of the declarations\<close>

lemmas decl_eval = p_search_decls_def PLogarithmicSearch_decl_def PSubSampleSearch_decl_def
  PLocalSearch_decl_def PTwoLevelSearch_decl_def param_type_def

text \<open>
  Claim C5. Of the four declared P-frame search functions, exactly
  \<^verbatim>\<open>PLocalSearch\<close> and \<^verbatim>\<open>PTwoLevelSearch\<close> take the previous-best cost
  \<^verbatim>\<open>bestSoFar\<close>; each of the four takes the block coordinates \<^verbatim>\<open>by\<close> and \<^verbatim>\<open>bx\<close> as
  \<^verbatim>\<open>int\<close>, gives the motion vector through the two \<^verbatim>\<open>int *\<close> parameters \<^verbatim>\<open>motionY\<close>
  and \<^verbatim>\<open>motionX\<close>, and returns \<^verbatim>\<open>int32\<close>.
\<close>

theorem p_search_prototypes:
  "map proto_name (filter (\<lambda>p. param_type p ''bestSoFar'' \<noteq> None) p_search_decls) =
     [''PLocalSearch'', ''PTwoLevelSearch''] \<and>
   map proto_name p_search_decls =
     [''PLogarithmicSearch'', ''PSubSampleSearch'', ''PLocalSearch'', ''PTwoLevelSearch''] \<and>
   map (\<lambda>p. (param_type p ''by'', param_type p ''bx'')) p_search_decls =
     replicate 4 (Some T_int, Some T_int) \<and>
   map (\<lambda>p. (param_type p ''motionY'', param_type p ''motionX'')) p_search_decls =
     replicate 4 (Some (T_ptr T_int), Some (T_ptr T_int)) \<and>
   map proto_ret p_search_decls = replicate 4 T_int32"
  by (simp add: decl_eval numeral_eq_Suc)

section \<open>Properties of the algorithm selector\<close>

lemmas selector_eval = SetPSearchAlg_def SetBSearchAlg_def PSearchName_def BSearchName_def
  mode_name_def psearch_names_def bsearch_names_def PSEARCH_SUBSAMPLE_def
  PSEARCH_EXHAUSTIVE_def PSEARCH_LOGARITHMIC_def PSEARCH_TWOLEVEL_def
  BSEARCH_EXHAUSTIVE_def BSEARCH_CROSS2_def BSEARCH_SIMPLE_def

text \<open>
  Claim C7. \<^verbatim>\<open>SetPSearchAlg("logarithmic")\<close> succeeds from every state, sets the
  mode \<^verbatim>\<open>PSEARCH_LOGARITHMIC\<close>, and \<^verbatim>\<open>PSearchName()\<close> then returns the name of
  that mode.
\<close>

theorem set_logarithmic_then_name:
  "\<exists>s'. SetPSearchAlg ''logarithmic'' s = Inr s' \<and>
        psearchAlg s' = PSEARCH_LOGARITHMIC \<and> PSearchName s' = Some ''logarithmic''"
  by (simp add: selector_eval)

text \<open>
  Claim C8. For every name that is not a recognized algorithm name,
  \<^verbatim>\<open>SetPSearchAlg\<close> and \<^verbatim>\<open>SetBSearchAlg\<close> end in an explicit error that carries the
  name, and select no mode.
\<close>

theorem unrecognized_name_is_error:
  "(alg \<notin> fst ` set psearch_names \<longrightarrow>
      SetPSearchAlg alg s = Inl (UnrecognizedPSearch alg)) \<and>
   (alg \<notin> fst ` set bsearch_names \<longrightarrow>
      SetBSearchAlg alg s = Inl (UnrecognizedBSearch alg))"
  by (simp add: SetPSearchAlg_def SetBSearchAlg_def map_of_eq_None_iff [symmetric])

theorem unrecognized_name_is_error_witness:
  "''fastest'' \<notin> fst ` set psearch_names \<and> ''fastest'' \<notin> fst ` set bsearch_names \<and>
   SetPSearchAlg ''fastest'' \<lparr>psearchAlg = 1, bsearchAlg = 2\<rparr> =
     Inl (UnrecognizedPSearch ''fastest'') \<and>
   SetBSearchAlg ''fastest'' \<lparr>psearchAlg = 1, bsearchAlg = 2\<rparr> =
     Inl (UnrecognizedBSearch ''fastest'')"
proof -
  have p: "''fastest'' \<notin> fst ` set psearch_names" by (simp add: psearch_names_def)
  have b: "''fastest'' \<notin> fst ` set bsearch_names" by (simp add: bsearch_names_def)
  from p b unrecognized_name_is_error [of "''fastest''" "\<lparr>psearchAlg = 1, bsearchAlg = 2\<rparr>"]
  show ?thesis by blast
qed

end
